theory Spec2Isabelle
  imports Main
begin

section \<open>Python values of the example script\<close>

text \<open>
  The script \<^verbatim>\<open>examples/mnist_full_logs.py\<close> is glue over jax, flax, optax, clu and
  ciclo. Every call into one of these libraries may raise; a raised exception is the
  \<open>Inl\<close> branch of a result, and the script's functions are sequenced so that the first
  exception is the outcome, as in Python.
\<close>

datatype 'e exn = KeyError string | IndexError | Raised 'e

type_synonym ('e, 'a) result = "'e exn + 'a"

definition and_then :: "('e, 'a) result \<Rightarrow> ('a \<Rightarrow> ('e, 'b) result) \<Rightarrow> ('e, 'b) result" where
  "and_then m f = (case m of Inl e \<Rightarrow> Inl e | Inr v \<Rightarrow> f v)"

text \<open>A dict with string keys; \<^verbatim>\<open>d[k]\<close> raises KeyError on a missing key.\<close>

type_synonym 'v dict = "string \<rightharpoonup> 'v"

definition getitem :: "'v dict \<Rightarrow> string \<Rightarrow> ('e, 'v) result" where
  "getitem d k = (case d k of None \<Rightarrow> Inl (KeyError k) | Some v \<Rightarrow> Inr v)"

text \<open>A float literal of the source, kept as written: mantissa and decimal exponent.\<close>

datatype float_lit = FloatLit int int

section \<open>The data model\<close>

text \<open>
  \<^verbatim>\<open>class Metrics(Collection)\<close> declares two fields, \<^verbatim>\<open>loss: Average.from_output("loss")\<close>
  and \<^verbatim>\<open>accuracy: Accuracy\<close>. The metric values themselves belong to clu and stay
  abstract (\<open>'a\<close> and \<open>'c\<close>).
\<close>

record ('a, 'c) Metrics =
  loss :: 'a
  accuracy :: 'c

text \<open>
  Modelled from the spec: the base class \<^verbatim>\<open>train_state.TrainState\<close> is flax's and its
  declaration is not part of the script. The spec gives the training state the model
  parameters and the optimizer state; the script reads \<^verbatim>\<open>state.apply_fn\<close> and
  \<^verbatim>\<open>state.params\<close> and passes \<^verbatim>\<open>apply_fn\<close>, \<^verbatim>\<open>params\<close> and \<^verbatim>\<open>tx\<close> to
  \<^verbatim>\<open>TrainState.create\<close>; \<^verbatim>\<open>step\<close> is the counter flax keeps beside them. Tensors \<open>'t\<close>,
  parameter trees \<open>'p\<close>, the optimizer \<open>'tx\<close> and its state \<open>'o\<close> are abstract.
\<close>

record ('e, 't, 'p, 'tx, 'o) TrainState_base =
  step :: int
  apply_fn :: "'p dict \<Rightarrow> 't \<Rightarrow> ('e, 't) result"
  params :: 'p
  tx :: 'tx
  opt_state :: 'o

text \<open>
  \<^verbatim>\<open>class TrainState(train_state.TrainState): metrics: Metrics\<close> extends the base class by
  one field.
\<close>

record ('e, 't, 'p, 'tx, 'o, 'a, 'c) TrainState = "('e, 't, 'p, 'tx, 'o) TrainState_base" +
  metrics :: "('a, 'c) Metrics"

section \<open>The configuration handed to \<^verbatim>\<open>ciclo.loop\<close>\<close>

text \<open>
  The loop driver, its schedules and its ready-made callbacks belong to ciclo and are not
  part of the script: the script only builds their arguments. The call is therefore kept
  as data. \<open>TrainStep\<close>, \<open>ComputeMetrics\<close>, \<open>ResetMetrics\<close> and \<open>EvalStep\<close> name the
  script's functions \<^verbatim>\<open>train_step\<close>, \<^verbatim>\<open>compute_metrics\<close>, \<^verbatim>\<open>reset_metrics\<close> and
  \<^verbatim>\<open>eval_step\<close>; the other constructors are the calls \<^verbatim>\<open>ciclo.inner_loop(name, fn)\<close>,
  \<^verbatim>\<open>ciclo.checkpoint(path, monitor=, mode=)\<close>,
  \<^verbatim>\<open>ciclo.early_stopping(monitor=, mode=, patience=)\<close> and \<^verbatim>\<open>ciclo.keras_bar(total=)\<close>
  with their arguments. A value of the schedule dict is one callback or a list of them;
  \<open>Unpack\<close> is a \<^verbatim>\<open>**\<close> entry of the dict literal.
\<close>

datatype schedule = Every int

datatype dataset = DsTrain | DsValid

datatype callback =
    TrainStep
  | ComputeMetrics
  | ResetMetrics
  | EvalStep
  | InnerLoop string loop_call
  | Checkpoint string string string
  | EarlyStopping string string int
  | KerasBar int
and tasks = One callback | Many "callback list"
and entry = Entry schedule tasks | Unpack callback
and loop_call = Loop dataset "entry list" "callback list" "int option"

section \<open>The libraries, as parameters\<close>

text \<open>
  One field per library function the script calls. A method called on an object takes
  the object as its first argument. \<open>'l\<close> is what \<^verbatim>\<open>Collection.compute\<close> returns,
  \<open>'g\<close> a \<^verbatim>\<open>ciclo.logs()\<close> object. \<^verbatim>\<open>logs.add_metrics\<close> updates the logs object in
  place; the model returns the updated object. \<open>model_init seed shape\<close> stands for
  \<^verbatim>\<open>model.init(jax.random.PRNGKey(seed), jnp.empty(shape))\<close>, \<open>Metrics_empty\<close> for the
  class-level call \<^verbatim>\<open>Metrics.empty()\<close>, and \<open>ciclo_loop\<close> for the loop driver, whose
  results are the final state, the history \<open>'h\<close> and the elapsed time \<open>'k\<close>.
\<close>

record ('e, 't, 'p, 'tx, 'o, 'a, 'c, 'l, 'g, 'h, 'k) framework =
  tshape :: "'t \<Rightarrow> nat list"
  true_divide :: "'t \<Rightarrow> float_lit \<Rightarrow> ('e, 't) result"
  reshape :: "'t \<Rightarrow> int list \<Rightarrow> ('e, 't) result"
  Dense :: "nat \<Rightarrow> 'p dict \<Rightarrow> 't \<Rightarrow> ('e, 't) result"
  softmax_cross_entropy_with_integer_labels :: "'t \<Rightarrow> 't \<Rightarrow> ('e, 't) result"
  mean :: "'t \<Rightarrow> ('e, 't) result"
  value_and_grad ::
    "('p \<Rightarrow> ('e, 't \<times> 't) result) \<Rightarrow> 'p \<Rightarrow> ('e, ('t \<times> 't) \<times> 'p) result"
  apply_gradients ::
    "('e, 't, 'p, 'tx, 'o, 'a, 'c) TrainState \<Rightarrow> 'p
      \<Rightarrow> ('e, ('e, 't, 'p, 'tx, 'o, 'a, 'c) TrainState) result"
  single_from_model_output :: "('a, 'c) Metrics \<Rightarrow> 't dict \<Rightarrow> ('e, ('a, 'c) Metrics) result"
  merge :: "('a, 'c) Metrics \<Rightarrow> ('a, 'c) Metrics \<Rightarrow> ('e, ('a, 'c) Metrics) result"
  compute :: "('a, 'c) Metrics \<Rightarrow> ('e, 'l) result"
  empty :: "('a, 'c) Metrics \<Rightarrow> ('e, ('a, 'c) Metrics) result"
  logs :: "('e, 'g) result"
  add_metrics :: "'g \<Rightarrow> 'l \<Rightarrow> bool \<Rightarrow> ('e, 'g) result"
  model_init :: "nat \<Rightarrow> nat list \<Rightarrow> ('e, 'p dict) result"
  adamw :: "float_lit \<Rightarrow> ('e, 'tx) result"
  Metrics_empty :: "('e, ('a, 'c) Metrics) result"
  TrainState_create ::
    "('p dict \<Rightarrow> 't \<Rightarrow> ('e, 't) result) \<Rightarrow> 'p \<Rightarrow> 'tx \<Rightarrow> ('a, 'c) Metrics
      \<Rightarrow> ('e, ('e, 't, 'p, 'tx, 'o, 'a, 'c) TrainState) result"
  ciclo_loop ::
    "('e, 't, 'p, 'tx, 'o, 'a, 'c) TrainState \<Rightarrow> loop_call
      \<Rightarrow> ('e, ('e, 't, 'p, 'tx, 'o, 'a, 'c) TrainState \<times> 'h \<times> 'k) result"

section \<open>The script's functions\<close>

text \<open>
  \<^verbatim>\<open>Metrics.update(self, **kwargs)\<close>:
  \<^verbatim>\<open>updates = self.single_from_model_output(**kwargs); return self.merge(updates)\<close>.
\<close>

definition update ::
  "('e, 't, 'p, 'tx, 'o, 'a, 'c, 'l, 'g, 'h, 'k) framework \<Rightarrow> ('a, 'c) Metrics \<Rightarrow> 't dict
    \<Rightarrow> ('e, ('a, 'c) Metrics) result" where
  "update fw self kwargs =
     and_then (single_from_model_output fw self kwargs) (\<lambda>updates. merge fw self updates)"

text \<open>
  \<^verbatim>\<open>def reset_metrics(state, batch, _): return state.replace(metrics=state.metrics.empty())\<close>.
  \<^verbatim>\<open>replace\<close> on a dataclass builds a copy with the named fields changed: a record update.
\<close>

definition reset_metrics ::
  "('e, 't, 'p, 'tx, 'o, 'a, 'c, 'l, 'g, 'h, 'k) framework \<Rightarrow> ('e, 't, 'p, 'tx, 'o, 'a, 'c) TrainState
    \<Rightarrow> 'b \<Rightarrow> 'u \<Rightarrow> ('e, ('e, 't, 'p, 'tx, 'o, 'a, 'c) TrainState) result" where
  "reset_metrics fw state batch uu =
     and_then (empty fw (metrics state)) (\<lambda>m. Inr (state\<lparr>metrics := m\<rparr>))"

text \<open>
  The closure \<^verbatim>\<open>loss_fn(params)\<close> of \<^verbatim>\<open>train_step\<close>: it reads \<^verbatim>\<open>state\<close> and \<^verbatim>\<open>batch\<close> of
  the enclosing call and returns \<^verbatim>\<open>(loss, logits)\<close>.
\<close>

definition loss_fn ::
  "('e, 't, 'p, 'tx, 'o, 'a, 'c, 'l, 'g, 'h, 'k) framework \<Rightarrow> ('e, 't, 'p, 'tx, 'o, 'a, 'c) TrainState
    \<Rightarrow> 't dict \<Rightarrow> 'p \<Rightarrow> ('e, 't \<times> 't) result" where
  "loss_fn fw state batch ps =
     and_then (getitem batch ''image'') (\<lambda>image.
     and_then (apply_fn state [''params'' \<mapsto> ps] image) (\<lambda>logits.
     and_then (getitem batch ''label'') (\<lambda>label.
     and_then (softmax_cross_entropy_with_integer_labels fw logits label) (\<lambda>ce.
     and_then (mean fw ce) (\<lambda>loss.
     Inr (loss, logits))))))"

text \<open>
  \<^verbatim>\<open>train_step(state, batch)\<close>. The name \<^verbatim>\<open>state\<close> is rebound to what
  \<^verbatim>\<open>apply_gradients\<close> returns, so the metrics that are updated and the state that is
  returned are those of the new state (\<open>state'\<close>). The closure is called on line 58,
  before the rebinding, so it reads the input state. The decorator \<^verbatim>\<open>jax.jit\<close> of
  \<^verbatim>\<open>train_step\<close>, \<^verbatim>\<open>compute_metrics\<close> and \<^verbatim>\<open>eval_step\<close> does not change what a function
  returns and is left out.
\<close>

definition train_step ::
  "('e, 't, 'p, 'tx, 'o, 'a, 'c, 'l, 'g, 'h, 'k) framework \<Rightarrow> ('e, 't, 'p, 'tx, 'o, 'a, 'c) TrainState
    \<Rightarrow> 't dict \<Rightarrow> ('e, ('e, 't, 'p, 'tx, 'o, 'a, 'c) TrainState) result" where
  "train_step fw state batch =
     and_then (value_and_grad fw (loss_fn fw state batch) (params state)) (\<lambda>((loss, logits), grads).
     and_then (apply_gradients fw state grads) (\<lambda>state'.
     and_then (getitem batch ''label'') (\<lambda>label.
     and_then (update fw (metrics state')
                 [''loss'' \<mapsto> loss, ''logits'' \<mapsto> logits, ''labels'' \<mapsto> label]) (\<lambda>m.
     Inr (state'\<lparr>metrics := m\<rparr>)))))"

text \<open>\<^verbatim>\<open>compute_metrics(state)\<close> returns the dict \<^verbatim>\<open>{"stateful_metrics": logs}\<close>.\<close>

definition compute_metrics ::
  "('e, 't, 'p, 'tx, 'o, 'a, 'c, 'l, 'g, 'h, 'k) framework \<Rightarrow> ('e, 't, 'p, 'tx, 'o, 'a, 'c) TrainState
    \<Rightarrow> ('e, 'l dict) result" where
  "compute_metrics fw state =
     and_then (compute fw (metrics state)) (\<lambda>lg. Inr [''stateful_metrics'' \<mapsto> lg])"

text \<open>\<^verbatim>\<open>eval_step(state, batch)\<close> returns \<^verbatim>\<open>(logs, state.replace(metrics=metrics))\<close>.\<close>

definition eval_step ::
  "('e, 't, 'p, 'tx, 'o, 'a, 'c, 'l, 'g, 'h, 'k) framework \<Rightarrow> ('e, 't, 'p, 'tx, 'o, 'a, 'c) TrainState
    \<Rightarrow> 't dict \<Rightarrow> ('e, 'g \<times> ('e, 't, 'p, 'tx, 'o, 'a, 'c) TrainState) result" where
  "eval_step fw state batch =
     and_then (getitem batch ''image'') (\<lambda>image.
     and_then (apply_fn state [''params'' \<mapsto> params state] image) (\<lambda>logits.
     and_then (getitem batch ''label'') (\<lambda>label.
     and_then (softmax_cross_entropy_with_integer_labels fw logits label) (\<lambda>ce.
     and_then (mean fw ce) (\<lambda>loss.
     and_then (getitem batch ''label'') (\<lambda>label'.
     and_then (update fw (metrics state)
                 [''loss'' \<mapsto> loss, ''logits'' \<mapsto> logits, ''labels'' \<mapsto> label']) (\<lambda>m.
     and_then (logs fw) (\<lambda>lg.
     and_then (compute fw m) (\<lambda>computed.
     and_then (add_metrics fw lg computed True) (\<lambda>lg'.
     Inr (lg', state\<lparr>metrics := m\<rparr>)))))))))))"

section \<open>The model\<close>

text \<open>\<^verbatim>\<open>x.shape[0]\<close> raises IndexError on an array with no dimension.\<close>

definition shape0 :: "nat list \<Rightarrow> ('e, nat) result" where
  "shape0 sh = (case sh of [] \<Rightarrow> Inl IndexError | n # _ \<Rightarrow> Inr n)"

text \<open>
  \<^verbatim>\<open>Linear.__call__(self, x)\<close>: \<^verbatim>\<open>x / 255.0\<close>, \<^verbatim>\<open>x.reshape((x.shape[0], -1))\<close>,
  \<^verbatim>\<open>nn.Dense(features=10)(x)\<close>. The variables the module is applied with reach the layer.
\<close>

definition Linear ::
  "('e, 't, 'p, 'tx, 'o, 'a, 'c, 'l, 'g, 'h, 'k) framework \<Rightarrow> 'p dict \<Rightarrow> 't \<Rightarrow> ('e, 't) result" where
  "Linear fw variables x =
     and_then (true_divide fw x (FloatLit 2550 (- 1))) (\<lambda>x1.
     and_then (shape0 (tshape fw x1)) (\<lambda>n.
     and_then (reshape fw x1 [int n, - 1]) (\<lambda>x2.
     Dense fw 10 variables x2)))"

text \<open>
  What numpy and jax.numpy document for the two library calls of the flattening, at the
  level of shapes: dividing by a scalar keeps the shape, and \<^verbatim>\<open>reshape\<close> to a target with
  one \<^verbatim>\<open>-1\<close> gives that dimension the size that keeps the number of elements. These are
  properties of the libraries, assumed where a shape is claimed.
\<close>

definition reshaped :: "nat list \<Rightarrow> int list \<Rightarrow> nat list option" where
  "reshaped old target =
     (let size_old = prod_list old;
          known = prod_list (map nat (filter (\<lambda>d. d \<noteq> - 1) target))
      in if 1 < length (filter (\<lambda>d. d = - 1) target) \<or> list_ex (\<lambda>d. d < - 1) target then None
         else if list_ex (\<lambda>d. d = - 1) target then
           (if known = 0 \<or> size_old mod known \<noteq> 0 then None
            else Some (map (\<lambda>d. if d = - 1 then size_old div known else nat d) target))
         else if known = size_old then Some (map nat target) else None)"

definition shapes_as_documented ::
  "('e, 't, 'p, 'tx, 'o, 'a, 'c, 'l, 'g, 'h, 'k) framework \<Rightarrow> bool" where
  "shapes_as_documented fw \<longleftrightarrow>
     (\<forall>x c y. true_divide fw x c = Inr y \<longrightarrow> tshape fw y = tshape fw x) \<and>
     (\<forall>x target y. reshape fw x target = Inr y \<longrightarrow> reshaped (tshape fw x) target = Some (tshape fw y))"

section \<open>The script's top level\<close>

text \<open>Lines 17 and 97 to 100 of the script; \<^verbatim>\<open>//\<close> is floor division, as \<open>div\<close> on \<open>int\<close>.\<close>

definition batch_size :: int where
  "batch_size = 32"

definition total_samples :: int where
  "total_samples = 32 * 100"

definition total_steps :: int where
  "total_steps = total_samples div batch_size"

definition eval_steps :: int where
  "eval_steps = total_steps div 10"

definition log_steps :: int where
  "log_steps = total_steps div 50"

text \<open>\<^verbatim>\<open>str\<close> of an integer, for the f-string of the checkpoint directory.\<close>

fun digits :: "nat \<Rightarrow> string" where
  "digits n = (if n < 10 then [char_of (48 + n)] else digits (n div 10) @ [char_of (48 + n mod 10)])"

definition str_int :: "int \<Rightarrow> string" where
  "str_int i = (if i < 0 then CHR ''-'' # digits (nat (- i)) else digits (nat i))"

text \<open>
  The arguments of the \<^verbatim>\<open>ciclo.loop\<close> call of lines 101 to 129, after the state and with the
  dataset iterators named; \<open>now\<close> is \<^verbatim>\<open>int(time())\<close>. The arguments of \<open>Loop\<close> are the
  dataset, the schedule dict in the order it is written, \<^verbatim>\<open>on_start\<close> (empty when not
  given) and \<^verbatim>\<open>stop\<close> (\<open>None\<close> when not given).
\<close>

definition valid_loop :: loop_call where
  "valid_loop = Loop DsValid [Entry (Every 1) (One EvalStep)] [ResetMetrics] None"

definition training_loop :: "int \<Rightarrow> loop_call" where
  "training_loop now =
     Loop DsTrain
       [Entry (Every 1) (One TrainStep),
        Entry (Every log_steps) (Many [ComputeMetrics, ResetMetrics]),
        Entry (Every eval_steps)
          (Many [InnerLoop ''valid'' valid_loop,
                 Checkpoint (''logdir/mnist_full/'' @ str_int now) ''accuracy_valid'' ''max'',
                 EarlyStopping ''accuracy_valid'' ''max'' (eval_steps * 2)]),
        Unpack (KerasBar total_steps)]
       []
       (Some total_steps)"

text \<open>
  Lines 86 to 94: the model is initialised on an empty \<open>(1, 28, 28, 1)\<close> array and the
  state is built by \<^verbatim>\<open>TrainState.create\<close>; then the loop is called on that state.
\<close>

definition initial_state ::
  "('e, 't, 'p, 'tx, 'o, 'a, 'c, 'l, 'g, 'h, 'k) framework
    \<Rightarrow> ('e, ('e, 't, 'p, 'tx, 'o, 'a, 'c) TrainState) result" where
  "initial_state fw =
     and_then (model_init fw 0 [1, 28, 28, 1]) (\<lambda>variables.
     and_then (getitem variables ''params'') (\<lambda>ps.
     and_then (adamw fw (FloatLit 1 (- 3))) (\<lambda>opt.
     and_then (Metrics_empty fw) (\<lambda>m.
     TrainState_create fw (Linear fw) ps opt m))))"

definition script ::
  "('e, 't, 'p, 'tx, 'o, 'a, 'c, 'l, 'g, 'h, 'k) framework \<Rightarrow> int
    \<Rightarrow> ('e, ('e, 't, 'p, 'tx, 'o, 'a, 'c) TrainState \<times> 'h \<times> 'k) result" where
  "script fw now =
     and_then (initial_state fw) (\<lambda>state. ciclo_loop fw state (training_loop now))"

text \<open>
  Where a callback is registered: the triggers on the way from the outermost loop to it.
  \<open>At s\<close> is a key of a schedule dict, \<open>OnStart\<close> the \<^verbatim>\<open>on_start\<close> list of a loop,
  \<open>Unpacked\<close> a \<^verbatim>\<open>**\<close> entry.
\<close>

datatype trigger = At schedule | OnStart | Unpacked

primrec sites_callback :: "callback \<Rightarrow> callback \<Rightarrow> trigger list \<Rightarrow> trigger list list"
  and sites_tasks :: "callback \<Rightarrow> tasks \<Rightarrow> trigger list \<Rightarrow> trigger list list"
  and sites_entry :: "callback \<Rightarrow> entry \<Rightarrow> trigger list \<Rightarrow> trigger list list"
  and sites_loop :: "callback \<Rightarrow> loop_call \<Rightarrow> trigger list \<Rightarrow> trigger list list" where
  "sites_callback c TrainStep path = (if c = TrainStep then [path] else [])"
| "sites_callback c ComputeMetrics path = (if c = ComputeMetrics then [path] else [])"
| "sites_callback c ResetMetrics path = (if c = ResetMetrics then [path] else [])"
| "sites_callback c EvalStep path = (if c = EvalStep then [path] else [])"
| "sites_callback c (InnerLoop name lp) path = sites_loop c lp path"
| "sites_callback c (Checkpoint path' monitor how) path =
     (if c = Checkpoint path' monitor how then [path] else [])"
| "sites_callback c (EarlyStopping monitor how patience) path =
     (if c = EarlyStopping monitor how patience then [path] else [])"
| "sites_callback c (KerasBar n) path = (if c = KerasBar n then [path] else [])"
| "sites_tasks c (One cb) path = sites_callback c cb path"
| "sites_tasks c (Many cbs) path = concat (map (\<lambda>cb. sites_callback c cb path) cbs)"
| "sites_entry c (Entry s t) path = sites_tasks c t (path @ [At s])"
| "sites_entry c (Unpack cb) path = sites_callback c cb (path @ [Unpacked])"
| "sites_loop c (Loop ds entries on_start stop) path =
     concat (map (\<lambda>cb. sites_callback c cb (path @ [OnStart])) on_start) @
     concat (map (\<lambda>e. sites_entry c e path) entries)"

section \<open>The schedule of the loop\<close>

text \<open>
  Modelled from the spec: the loop driver \<^verbatim>\<open>ciclo.loop\<close>, the schedule \<^verbatim>\<open>ciclo.every\<close> and the
  ready-made callbacks are ciclo's and are not part of the script. The spec calls the driver
  a generic step-scheduling loop with a periodic callback table, which also handles periodic
  evaluation, checkpointing, early stopping and progress display. Modelled is the schedule
  alone. Steps are counted from 1. An entry under \<^verbatim>\<open>every(n)\<close> is due at the steps that \<open>n\<close>
  divides. The due entries run in the order of the table, the callbacks of an entry in the
  order of its list. The loop runs no step beyond \<^verbatim>\<open>stop\<close>. What a \<^verbatim>\<open>**\<close> entry registers, and
  what the ready-made callbacks do when they run (an early stop among them), is not modelled.
\<close>

primrec due :: "schedule \<Rightarrow> int \<Rightarrow> bool" where
  "due (Every n) k \<longleftrightarrow> 0 < n \<and> k mod n = 0"

primrec callbacks_of :: "tasks \<Rightarrow> callback list" where
  "callbacks_of (One cb) = [cb]"
| "callbacks_of (Many cbs) = cbs"

primrec entry_at :: "entry \<Rightarrow> int \<Rightarrow> callback list" where
  "entry_at (Entry s t) k = (if due s k then callbacks_of t else [])"
| "entry_at (Unpack cb) k = []"

primrec callbacks_at :: "loop_call \<Rightarrow> int \<Rightarrow> callback list" where
  "callbacks_at (Loop ds entries on_start stop) k = concat (map (\<lambda>e. entry_at e k) entries)"

primrec may_run :: "loop_call \<Rightarrow> int \<Rightarrow> bool" where
  "may_run (Loop ds entries on_start stop) k \<longleftrightarrow>
     1 \<le> k \<and> (case stop of None \<Rightarrow> True | Some n \<Rightarrow> k \<le> n)"

primrec unpacked_entry :: "entry \<Rightarrow> callback list" where
  "unpacked_entry (Entry s t) = []"
| "unpacked_entry (Unpack cb) = [cb]"

primrec unpacked :: "loop_call \<Rightarrow> callback list" where
  "unpacked (Loop ds entries on_start stop) = concat (map unpacked_entry entries)"

text \<open>
  A callback is run during step \<open>k\<close> of a loop when it is one of the callbacks due at \<open>k\<close>,
  or is registered anywhere in an inner loop that is due at \<open>k\<close>.
\<close>

definition run_during :: "callback \<Rightarrow> loop_call \<Rightarrow> int \<Rightarrow> bool" where
  "run_during c lp k \<longleftrightarrow> list_ex (\<lambda>cb. sites_callback c cb [] \<noteq> []) (callbacks_at lp k)"

section \<open>A small instance of the libraries\<close>

text \<open>
  For evaluating the script's functions on concrete inputs: tensors are a shape with one
  integer, parameters and gradients are integers, a metric is a pair of a total and a
  count, and library errors are numbered. The shapes follow \<open>reshaped\<close>.
\<close>

type_synonym toy_tensor = "nat list \<times> int"

type_synonym toy_state = "(nat, toy_tensor, int, unit, int, int \<times> int, int \<times> int) TrainState"

type_synonym toy_framework =
  "(nat, toy_tensor, int, unit, int, int \<times> int, int \<times> int, int \<times> int, (int \<times> int) list,
    unit, unit) framework"

definition toy_single ::
  "(int \<times> int, int \<times> int) Metrics \<Rightarrow> toy_tensor dict
    \<Rightarrow> (nat, (int \<times> int, int \<times> int) Metrics) result" where
  "toy_single self kwargs =
     (case kwargs ''loss'' of None \<Rightarrow> Inl (Raised 1) | Some l \<Rightarrow>
      case kwargs ''logits'' of None \<Rightarrow> Inl (Raised 1) | Some lg \<Rightarrow>
      case kwargs ''labels'' of None \<Rightarrow> Inl (Raised 1) | Some lb \<Rightarrow>
        Inr \<lparr>loss = (snd l, 1), accuracy = (if snd lg = snd lb then 1 else 0, 1)\<rparr>)"

definition toy_merge ::
  "(int \<times> int, int \<times> int) Metrics \<Rightarrow> (int \<times> int, int \<times> int) Metrics
    \<Rightarrow> (nat, (int \<times> int, int \<times> int) Metrics) result" where
  "toy_merge m u =
     Inr \<lparr>loss = (fst (loss m) + fst (loss u), snd (loss m) + snd (loss u)),
          accuracy = (fst (accuracy m) + fst (accuracy u), snd (accuracy m) + snd (accuracy u))\<rparr>"

definition toy_reshape :: "toy_tensor \<Rightarrow> int list \<Rightarrow> (nat, toy_tensor) result" where
  "toy_reshape x target =
     (case reshaped (fst x) target of None \<Rightarrow> Inl (Raised 2) | Some sh \<Rightarrow> Inr (sh, snd x))"

definition toy_Dense :: "nat \<Rightarrow> int dict \<Rightarrow> toy_tensor \<Rightarrow> (nat, toy_tensor) result" where
  "toy_Dense n variables x =
     (case variables ''params'' of None \<Rightarrow> Inl (Raised 3)
      | Some w \<Rightarrow> Inr (butlast (fst x) @ [n], w * snd x))"

definition toy :: toy_framework where
  "toy = \<lparr>
     tshape = fst,
     true_divide = (\<lambda>x c. Inr x),
     reshape = toy_reshape,
     Dense = toy_Dense,
     softmax_cross_entropy_with_integer_labels = (\<lambda>lg lb. Inr ([], snd lg - snd lb)),
     mean = (\<lambda>t. Inr t),
     value_and_grad = (\<lambda>f p. case f p of Inl e \<Rightarrow> Inl e | Inr v \<Rightarrow> Inr (v, 1)),
     apply_gradients = (\<lambda>s g. Inr (s\<lparr>step := step s + 1, params := params s - g\<rparr>)),
     single_from_model_output = toy_single,
     merge = toy_merge,
     compute = (\<lambda>m. Inr (fst (loss m), fst (accuracy m))),
     empty = (\<lambda>m. Inr \<lparr>loss = (0, 0), accuracy = (0, 0)\<rparr>),
     logs = Inr [],
     add_metrics = (\<lambda>g l stateful. Inr (l # g)),
     model_init = (\<lambda>seed sh. Inr [''params'' \<mapsto> 0]),
     adamw = (\<lambda>lr. Inr ()),
     Metrics_empty = Inr \<lparr>loss = (0, 0), accuracy = (0, 0)\<rparr>,
     TrainState_create = (\<lambda>f p t m.
       Inr \<lparr>step = 0, apply_fn = f, params = p, tx = t, opt_state = 0, metrics = m\<rparr>),
     ciclo_loop = (\<lambda>s lp. Inr (s, (), ()))
   \<rparr>"

text \<open>A state whose model multiplies the input by the parameter, and a batch.\<close>

definition toy_apply :: "int dict \<Rightarrow> toy_tensor \<Rightarrow> (nat, toy_tensor) result" where
  "toy_apply variables x =
     (case variables ''params'' of None \<Rightarrow> Inl (Raised 3) | Some w \<Rightarrow> Inr (fst x, w * snd x))"

definition toy_state0 :: toy_state where
  "toy_state0 =
     \<lparr>step = 4, apply_fn = toy_apply, params = 3, tx = (), opt_state = 0,
      metrics = \<lparr>loss = (5, 2), accuracy = (1, 2)\<rparr>\<rparr>"

definition toy_batch :: "toy_tensor dict" where
  "toy_batch = [''image'' \<mapsto> ([1], 2), ''label'' \<mapsto> ([1], 6)]"

text \<open>
  What the script's functions return on this state and batch in the small instance, and
  the state the script creates there.
\<close>

definition toy_created :: toy_state where
  "toy_created =
     \<lparr>step = 0, apply_fn = Linear toy, params = 0, tx = (), opt_state = 0,
      metrics = \<lparr>loss = (0, 0), accuracy = (0, 0)\<rparr>\<rparr>"

definition toy_trained :: toy_state where
  "toy_trained =
     toy_state0\<lparr>step := 5, params := 2, metrics := \<lparr>loss = (5, 3), accuracy = (2, 3)\<rparr>\<rparr>"

definition toy_evaluated :: toy_state where
  "toy_evaluated = toy_state0\<lparr>metrics := \<lparr>loss = (5, 3), accuracy = (2, 3)\<rparr>\<rparr>"


text \<open>Model outputs, as the keyword arguments of \<^verbatim>\<open>update\<close>.\<close>

definition toy_outputs :: "int \<Rightarrow> int \<Rightarrow> int \<Rightarrow> toy_tensor dict" where
  "toy_outputs l lg lb = [''loss'' \<mapsto> ([], l), ''logits'' \<mapsto> ([1], lg), ''labels'' \<mapsto> ([1], lb)]"

text \<open>
  What jax documents for \<^verbatim>\<open>value_and_grad(f, has_aux=True)(p)\<close>: the first component of
  the result is what \<^verbatim>\<open>f(p)\<close> returns.
\<close>

definition value_and_grad_returns_value ::
  "('e, 't, 'p, 'tx, 'o, 'a, 'c, 'l, 'g, 'h, 'k) framework \<Rightarrow> bool" where
  "value_and_grad_returns_value fw \<longleftrightarrow>
     (\<forall>f p v g. value_and_grad fw f p = Inr (v, g) \<longrightarrow> f p = Inr v)"

section \<open>Sequencing and lookups\<close>

lemma and_then_Inr: "and_then m f = Inr y \<longleftrightarrow> (\<exists>v. m = Inr v \<and> f v = Inr y)"
  by (cases m) (simp_all add: and_then_def)

lemma and_then_Inl: "and_then m f = Inl e \<longleftrightarrow> m = Inl e \<or> (\<exists>v. m = Inr v \<and> f v = Inl e)"
  by (cases m) (simp_all add: and_then_def)

lemma and_then_simps [simp]: "and_then (Inr v) f = f v" "and_then (Inl e) f = Inl e"
  by (simp_all add: and_then_def)

lemma getitem_Inr [simp]: "getitem d k = Inr v \<longleftrightarrow> d k = Some v"
  by (simp add: getitem_def split: option.splits)

lemma getitem_Inl [simp]: "getitem d k = Inl e \<longleftrightarrow> d k = None \<and> e = KeyError k"
  by (auto simp: getitem_def split: option.splits)

section \<open>When the step functions return\<close>

lemma loss_fn_Inr:
  "loss_fn fw state batch ps = Inr (l, lg) \<longleftrightarrow>
     (\<exists>image label ce. batch ''image'' = Some image \<and>
        apply_fn state [''params'' \<mapsto> ps] image = Inr lg \<and>
        batch ''label'' = Some label \<and>
        softmax_cross_entropy_with_integer_labels fw lg label = Inr ce \<and>
        mean fw ce = Inr l)"
  by (auto simp: loss_fn_def and_then_Inr)

lemma train_step_Inr:
  "train_step fw state batch = Inr s \<longleftrightarrow>
     (\<exists>l lg grads state' label m.
        value_and_grad fw (loss_fn fw state batch) (params state) = Inr ((l, lg), grads) \<and>
        apply_gradients fw state grads = Inr state' \<and>
        batch ''label'' = Some label \<and>
        update fw (metrics state') [''loss'' \<mapsto> l, ''logits'' \<mapsto> lg, ''labels'' \<mapsto> label] = Inr m \<and>
        s = state'\<lparr>metrics := m\<rparr>)"
  by (auto simp: train_step_def and_then_Inr split: prod.splits)

lemma eval_step_Inr:
  "eval_step fw state batch = Inr (lg', s) \<longleftrightarrow>
     (\<exists>image logits label ce l m lg computed.
        batch ''image'' = Some image \<and>
        apply_fn state [''params'' \<mapsto> params state] image = Inr logits \<and>
        batch ''label'' = Some label \<and>
        softmax_cross_entropy_with_integer_labels fw logits label = Inr ce \<and>
        mean fw ce = Inr l \<and>
        update fw (metrics state) [''loss'' \<mapsto> l, ''logits'' \<mapsto> logits, ''labels'' \<mapsto> label] = Inr m \<and>
        logs fw = Inr lg \<and> compute fw m = Inr computed \<and>
        add_metrics fw lg computed True = Inr lg' \<and>
        s = state\<lparr>metrics := m\<rparr>)"
  by (auto simp: eval_step_def and_then_Inr)

section \<open>When the step functions raise\<close>

lemma update_Inl:
  "update fw m kw = Inl e \<longleftrightarrow>
     single_from_model_output fw m kw = Inl e \<or>
     (\<exists>u. single_from_model_output fw m kw = Inr u \<and> merge fw m u = Inl e)"
  by (simp add: update_def and_then_Inl)

lemma reset_metrics_Inl:
  "reset_metrics fw state batch uu = Inl e \<longleftrightarrow> empty fw (metrics state) = Inl e"
  by (simp add: reset_metrics_def and_then_Inl)

lemma compute_metrics_Inl:
  "compute_metrics fw state = Inl e \<longleftrightarrow> compute fw (metrics state) = Inl e"
  by (simp add: compute_metrics_def and_then_Inl)

lemma loss_fn_Inl:
  "loss_fn fw state batch ps = Inl e \<longleftrightarrow>
     batch ''image'' = None \<and> e = KeyError ''image'' \<or>
     (\<exists>image. batch ''image'' = Some image \<and>
        (apply_fn state [''params'' \<mapsto> ps] image = Inl e \<or>
         (\<exists>logits. apply_fn state [''params'' \<mapsto> ps] image = Inr logits \<and>
            (batch ''label'' = None \<and> e = KeyError ''label'' \<or>
             (\<exists>label. batch ''label'' = Some label \<and>
                (softmax_cross_entropy_with_integer_labels fw logits label = Inl e \<or>
                 (\<exists>ce. softmax_cross_entropy_with_integer_labels fw logits label = Inr ce \<and>
                    mean fw ce = Inl e)))))))"
  by (simp add: loss_fn_def and_then_Inl)

lemma train_step_Inl:
  "train_step fw state batch = Inl e \<longleftrightarrow>
     value_and_grad fw (loss_fn fw state batch) (params state) = Inl e \<or>
     (\<exists>l logits grads.
        value_and_grad fw (loss_fn fw state batch) (params state) = Inr ((l, logits), grads) \<and>
        (apply_gradients fw state grads = Inl e \<or>
         (\<exists>state'. apply_gradients fw state grads = Inr state' \<and>
            (batch ''label'' = None \<and> e = KeyError ''label'' \<or>
             (\<exists>label. batch ''label'' = Some label \<and>
                update fw (metrics state')
                  [''loss'' \<mapsto> l, ''logits'' \<mapsto> logits, ''labels'' \<mapsto> label] = Inl e)))))"
  by (simp add: train_step_def and_then_Inl split_paired_Ex)

lemma eval_step_Inl:
  "eval_step fw state batch = Inl e \<longleftrightarrow>
     batch ''image'' = None \<and> e = KeyError ''image'' \<or>
     (\<exists>image. batch ''image'' = Some image \<and>
        (apply_fn state [''params'' \<mapsto> params state] image = Inl e \<or>
         (\<exists>logits. apply_fn state [''params'' \<mapsto> params state] image = Inr logits \<and>
            (batch ''label'' = None \<and> e = KeyError ''label'' \<or>
             (\<exists>label. batch ''label'' = Some label \<and>
                (softmax_cross_entropy_with_integer_labels fw logits label = Inl e \<or>
                 (\<exists>ce. softmax_cross_entropy_with_integer_labels fw logits label = Inr ce \<and>
                    (mean fw ce = Inl e \<or>
                     (\<exists>l. mean fw ce = Inr l \<and>
                        (update fw (metrics state)
                           [''loss'' \<mapsto> l, ''logits'' \<mapsto> logits, ''labels'' \<mapsto> label] = Inl e \<or>
                         (\<exists>m. update fw (metrics state)
                                 [''loss'' \<mapsto> l, ''logits'' \<mapsto> logits, ''labels'' \<mapsto> label] = Inr m \<and>
                            (logs fw = Inl e \<or>
                             (\<exists>lg. logs fw = Inr lg \<and>
                                (compute fw m = Inl e \<or>
                                 (\<exists>computed. compute fw m = Inr computed \<and>
                                    add_metrics fw lg computed True = Inl e)))))))))))))))"
  by (auto simp: eval_step_def and_then_Inl)

section \<open>The small instance, evaluated\<close>

lemma toy_value_and_grad: "value_and_grad_returns_value toy"
  by (auto simp: value_and_grad_returns_value_def toy_def split: sum.splits)

lemma toy_train_step:
  "train_step toy toy_state0 toy_batch =
     Inr toy_trained"
  by (simp add: toy_trained_def train_step_def loss_fn_def toy_def toy_state0_def toy_batch_def getitem_def
      toy_apply_def update_def toy_single_def toy_merge_def)

lemma toy_eval_step:
  "eval_step toy toy_state0 toy_batch =
     Inr ([(5, 2)], toy_evaluated)"
  by (simp add: toy_evaluated_def eval_step_def toy_def toy_state0_def toy_batch_def getitem_def
      toy_apply_def update_def toy_single_def toy_merge_def)

section \<open>\<^verbatim>\<open>reset_metrics\<close>\<close>

text \<open>
  C6: for every training state, batch and third argument, \<^verbatim>\<open>reset_metrics\<close> returns the
  input state with its \<open>metrics\<close> field replaced by what \<^verbatim>\<open>state.metrics.empty()\<close> returns,
  and \<open>params\<close>, \<open>opt_state\<close>, \<open>step\<close>, \<open>apply_fn\<close> (and \<open>tx\<close>) unchanged. Should
  \<^verbatim>\<open>empty()\<close> raise, that exception is the outcome.
\<close>

theorem reset_metrics_replaces_only_metrics:
  "(empty fw (metrics state) = Inr m \<longrightarrow>
      (\<exists>state'. reset_metrics fw state batch uu = Inr state' \<and> metrics state' = m \<and>
         params state' = params state \<and> opt_state state' = opt_state state \<and>
         step state' = step state \<and> apply_fn state' = apply_fn state \<and> tx state' = tx state)) \<and>
   (empty fw (metrics state) = Inl e \<longrightarrow> reset_metrics fw state batch uu = Inl e)"
  by (simp add: reset_metrics_def)

theorem reset_metrics_replaces_only_metrics_witness:
  "empty toy (metrics toy_state0) = Inr \<lparr>loss = (0, 0), accuracy = (0, 0)\<rparr> \<and>
   (\<exists>state'. reset_metrics toy toy_state0 toy_batch (7::nat) = Inr state' \<and>
      metrics state' = \<lparr>loss = (0, 0), accuracy = (0, 0)\<rparr> \<and>
      params state' = 3 \<and> opt_state state' = 0 \<and> step state' = 4 \<and>
      apply_fn state' = toy_apply \<and> tx state' = ())"
proof -
  have e: "empty toy (metrics toy_state0) = Inr \<lparr>loss = (0, 0), accuracy = (0, 0)\<rparr>"
    by (simp add: toy_def)
  from reset_metrics_replaces_only_metrics
         [of toy toy_state0 "\<lparr>loss = (0, 0), accuracy = (0, 0)\<rparr>" toy_batch "7::nat"] e
  show ?thesis by (simp add: toy_state0_def)
qed

text \<open>
  C10: the result of \<^verbatim>\<open>reset_metrics\<close> depends only on its state argument: any two
  choices of the batch and of the third argument (of any types) give the same result.
\<close>

theorem reset_metrics_ignores_batch:
  "reset_metrics fw state batch1 uu1 = reset_metrics fw state batch2 uu2"
  by (simp add: reset_metrics_def)

section \<open>\<^verbatim>\<open>eval_step\<close> and \<^verbatim>\<open>train_step\<close>\<close>

text \<open>
  C9: the state returned by \<^verbatim>\<open>eval_step\<close> differs from the input state only in its
  \<open>metrics\<close> field: \<open>params\<close>, \<open>opt_state\<close>, \<open>step\<close>, \<open>apply_fn\<close> (and \<open>tx\<close>) are
  those of the input state.
\<close>

theorem eval_step_changes_only_metrics:
  assumes "eval_step fw state batch = Inr (lg, state')"
  shows "params state' = params state \<and> opt_state state' = opt_state state \<and>
         step state' = step state \<and> apply_fn state' = apply_fn state \<and> tx state' = tx state \<and>
         state' = state\<lparr>metrics := metrics state'\<rparr>"
proof -
  from assms obtain m where "state' = state\<lparr>metrics := m\<rparr>"
    unfolding eval_step_Inr by blast
  then show ?thesis by simp
qed

theorem eval_step_changes_only_metrics_witness:
  "eval_step toy toy_state0 toy_batch =
     Inr ([(5, 2)], toy_evaluated) \<and>
   params toy_evaluated = 3 \<and>
   step toy_evaluated = 4 \<and>
   opt_state toy_evaluated = 0 \<and>
   apply_fn toy_evaluated = toy_apply"
  using eval_step_changes_only_metrics [OF toy_eval_step] toy_eval_step
  by (simp add: toy_state0_def toy_evaluated_def)

text \<open>
  C8: in \<^verbatim>\<open>train_step\<close>, the loss and the logits recorded into the returned state's metrics
  are computed by \<^verbatim>\<open>state.apply_fn\<close> from the parameters of the input state, while the
  parameters of the returned state are those of the state \<^verbatim>\<open>apply_gradients\<close> returned.
  That \<^verbatim>\<open>value_and_grad\<close> returns the value of the function it is given is jax's.
\<close>

theorem train_step_logs_before_update:
  assumes vg: "value_and_grad_returns_value fw"
    and ts: "train_step fw state batch = Inr state''"
  shows "\<exists>image label logits ce l grads state'.
     batch ''image'' = Some image \<and> batch ''label'' = Some label \<and>
     apply_fn state [''params'' \<mapsto> params state] image = Inr logits \<and>
     softmax_cross_entropy_with_integer_labels fw logits label = Inr ce \<and>
     mean fw ce = Inr l \<and>
     value_and_grad fw (loss_fn fw state batch) (params state) = Inr ((l, logits), grads) \<and>
     apply_gradients fw state grads = Inr state' \<and>
     update fw (metrics state') [''loss'' \<mapsto> l, ''logits'' \<mapsto> logits, ''labels'' \<mapsto> label]
       = Inr (metrics state'') \<and>
     params state'' = params state' \<and>
     state'' = state'\<lparr>metrics := metrics state''\<rparr>"
proof -
  from ts obtain l lg grads state' label m where
    v: "value_and_grad fw (loss_fn fw state batch) (params state) = Inr ((l, lg), grads)"
    and a: "apply_gradients fw state grads = Inr state'"
    and b: "batch ''label'' = Some label"
    and u: "update fw (metrics state') [''loss'' \<mapsto> l, ''logits'' \<mapsto> lg, ''labels'' \<mapsto> label] = Inr m"
    and s: "state'' = state'\<lparr>metrics := m\<rparr>"
    unfolding train_step_Inr by blast
  from vg v have "loss_fn fw state batch (params state) = Inr (l, lg)"
    unfolding value_and_grad_returns_value_def by blast
  then obtain image label' ce where
    i: "batch ''image'' = Some image"
    and f: "apply_fn state [''params'' \<mapsto> params state] image = Inr lg"
    and b': "batch ''label'' = Some label'"
    and c: "softmax_cross_entropy_with_integer_labels fw lg label' = Inr ce"
    and m: "mean fw ce = Inr l"
    unfolding loss_fn_Inr by blast
  from b b' have "label' = label" by simp
  with i b f c m v a u s show ?thesis by auto
qed

theorem train_step_logs_before_update_witness:
  "value_and_grad_returns_value toy \<and>
   train_step toy toy_state0 toy_batch = Inr toy_trained \<and>
   (\<exists>image label logits ce l grads state'.
     toy_batch ''image'' = Some image \<and> toy_batch ''label'' = Some label \<and>
     apply_fn toy_state0 [''params'' \<mapsto> params toy_state0] image = Inr logits \<and>
     softmax_cross_entropy_with_integer_labels toy logits label = Inr ce \<and>
     mean toy ce = Inr l \<and>
     value_and_grad toy (loss_fn toy toy_state0 toy_batch) (params toy_state0) = Inr ((l, logits), grads) \<and>
     apply_gradients toy toy_state0 grads = Inr state' \<and>
     update toy (metrics state') [''loss'' \<mapsto> l, ''logits'' \<mapsto> logits, ''labels'' \<mapsto> label]
       = Inr (metrics toy_trained) \<and>
     params toy_trained = params state' \<and>
     toy_trained = state'\<lparr>metrics := metrics toy_trained\<rparr>) \<and>
   params toy_state0 = 3 \<and> params toy_trained = 2 \<and>
   metrics toy_trained = \<lparr>loss = (5, 3), accuracy = (2, 3)\<rparr>"
proof -
  note c = train_step_logs_before_update [OF toy_value_and_grad toy_train_step]
  have "params toy_state0 = 3" "params toy_trained = 2"
    "metrics toy_trained = \<lparr>loss = (5, 3), accuracy = (2, 3)\<rparr>"
    by (simp_all add: toy_state0_def toy_trained_def)
  with c toy_value_and_grad toy_train_step show ?thesis by (intro conjI)
qed

section \<open>Exceptions\<close>

text \<open>
  C7: none of \<^verbatim>\<open>train_step\<close>, \<^verbatim>\<open>eval_step\<close>, \<^verbatim>\<open>compute_metrics\<close> and \<^verbatim>\<open>reset_metrics\<close>
  (nor \<^verbatim>\<open>Metrics.update\<close> and the closure \<^verbatim>\<open>loss_fn\<close>) handles an exception or raises one
  of its own: each raises exactly when one of the calls it makes raises, the earlier calls
  having returned, and it raises that same exception. The calls are the library calls and
  the subscripts \<^verbatim>\<open>batch["image"]\<close> and \<^verbatim>\<open>batch["label"]\<close>, whose KeyError is the dict's.
\<close>

theorem errors_are_those_of_the_calls:
  "(reset_metrics fw state batch0 uu = Inl e \<longleftrightarrow> empty fw (metrics state) = Inl e) \<and>
   (compute_metrics fw state = Inl e \<longleftrightarrow> compute fw (metrics state) = Inl e) \<and>
   (update fw m kw = Inl e \<longleftrightarrow>
      single_from_model_output fw m kw = Inl e \<or>
      (\<exists>u. single_from_model_output fw m kw = Inr u \<and> merge fw m u = Inl e)) \<and>
   (train_step fw state batch = Inl e \<longleftrightarrow>
      value_and_grad fw (loss_fn fw state batch) (params state) = Inl e \<or>
      (\<exists>l logits grads.
         value_and_grad fw (loss_fn fw state batch) (params state) = Inr ((l, logits), grads) \<and>
         (apply_gradients fw state grads = Inl e \<or>
          (\<exists>state'. apply_gradients fw state grads = Inr state' \<and>
             (batch ''label'' = None \<and> e = KeyError ''label'' \<or>
              (\<exists>label. batch ''label'' = Some label \<and>
                 update fw (metrics state')
                   [''loss'' \<mapsto> l, ''logits'' \<mapsto> logits, ''labels'' \<mapsto> label] = Inl e)))))) \<and>
   (loss_fn fw state batch ps = Inl e \<longleftrightarrow>
      batch ''image'' = None \<and> e = KeyError ''image'' \<or>
      (\<exists>image. batch ''image'' = Some image \<and>
         (apply_fn state [''params'' \<mapsto> ps] image = Inl e \<or>
          (\<exists>logits. apply_fn state [''params'' \<mapsto> ps] image = Inr logits \<and>
             (batch ''label'' = None \<and> e = KeyError ''label'' \<or>
              (\<exists>label. batch ''label'' = Some label \<and>
                 (softmax_cross_entropy_with_integer_labels fw logits label = Inl e \<or>
                  (\<exists>ce. softmax_cross_entropy_with_integer_labels fw logits label = Inr ce \<and>
                     mean fw ce = Inl e)))))))) \<and>
   (eval_step fw state batch = Inl e \<longleftrightarrow>
      batch ''image'' = None \<and> e = KeyError ''image'' \<or>
      (\<exists>image. batch ''image'' = Some image \<and>
         (apply_fn state [''params'' \<mapsto> params state] image = Inl e \<or>
          (\<exists>logits. apply_fn state [''params'' \<mapsto> params state] image = Inr logits \<and>
             (batch ''label'' = None \<and> e = KeyError ''label'' \<or>
              (\<exists>label. batch ''label'' = Some label \<and>
                 (softmax_cross_entropy_with_integer_labels fw logits label = Inl e \<or>
                  (\<exists>ce. softmax_cross_entropy_with_integer_labels fw logits label = Inr ce \<and>
                     (mean fw ce = Inl e \<or>
                      (\<exists>l. mean fw ce = Inr l \<and>
                         (update fw (metrics state)
                            [''loss'' \<mapsto> l, ''logits'' \<mapsto> logits, ''labels'' \<mapsto> label] = Inl e \<or>
                          (\<exists>m. update fw (metrics state)
                                  [''loss'' \<mapsto> l, ''logits'' \<mapsto> logits, ''labels'' \<mapsto> label] = Inr m \<and>
                             (logs fw = Inl e \<or>
                              (\<exists>lg. logs fw = Inr lg \<and>
                                 (compute fw m = Inl e \<or>
                                  (\<exists>computed. compute fw m = Inr computed \<and>
                                     add_metrics fw lg computed True = Inl e))))))))))))))))"
proof (intro conjI)
  show "reset_metrics fw state batch0 uu = Inl e \<longleftrightarrow> empty fw (metrics state) = Inl e"
    by (rule reset_metrics_Inl)
qed (rule compute_metrics_Inl update_Inl train_step_Inl loss_fn_Inl eval_step_Inl)+

theorem errors_are_those_of_the_calls_witness:
  "eval_step (toy\<lparr>merge := (\<lambda>m u. Inl (Raised 9))\<rparr>) toy_state0 toy_batch = Inl (Raised 9) \<and>
   train_step toy toy_state0 (toy_batch(''label'' := None)) = Inl (KeyError ''label'') \<and>
   reset_metrics (toy\<lparr>empty := (\<lambda>m. Inl (Raised 8))\<rparr>) toy_state0 toy_batch () = Inl (Raised 8)"
proof -
  let ?fw = "toy\<lparr>merge := (\<lambda>m u. Inl (Raised 9))\<rparr>"
  let ?fw' = "toy\<lparr>empty := (\<lambda>m. Inl (Raised 8))\<rparr>"
  note t = errors_are_those_of_the_calls
  have 1: "eval_step ?fw toy_state0 toy_batch = Inl (Raised 9)"
    by (simp add: eval_step_def toy_def toy_state0_def toy_batch_def getitem_def
      toy_apply_def update_def toy_single_def)
  have 2: "train_step toy toy_state0 (toy_batch(''label'' := None)) = Inl (KeyError ''label'')"
    by (simp add: train_step_def loss_fn_def toy_def toy_state0_def toy_batch_def getitem_def
      toy_apply_def)
  have 3: "reset_metrics ?fw' toy_state0 toy_batch () = Inl (Raised 8)"
    using t [of ?fw' toy_state0 toy_batch "()" "Raised 8"] by (simp add: toy_def)
  from 1 2 3 show ?thesis by simp
qed

section \<open>\<^verbatim>\<open>Metrics.update\<close>\<close>

text \<open>
  C5: for every metrics collection \<open>m\<close> and all model outputs \<open>kw\<close>, \<^verbatim>\<open>m.update(**kw)\<close> is
  \<^verbatim>\<open>m.merge(m.single_from_model_output(**kw))\<close> (and raises what
  \<^verbatim>\<open>single_from_model_output\<close> raises); so a second update merges its outputs into the
  result of the first one, rather than replacing it.
\<close>

theorem update_merges_single_output:
  "(single_from_model_output fw m kw = Inr u \<longrightarrow> update fw m kw = merge fw m u) \<and>
   (single_from_model_output fw m kw = Inl e \<longrightarrow> update fw m kw = Inl e) \<and>
   (single_from_model_output fw m kw = Inr u \<longrightarrow> merge fw m u = Inr m1 \<longrightarrow>
      single_from_model_output fw m1 kw2 = Inr u2 \<longrightarrow>
      and_then (update fw m kw) (\<lambda>m'. update fw m' kw2) = merge fw m1 u2)"
  by (simp add: update_def)

theorem update_merges_single_output_witness:
  "single_from_model_output toy \<lparr>loss = (5, 2), accuracy = (1, 2)\<rparr> (toy_outputs 3 6 6)
     = Inr \<lparr>loss = (3, 1), accuracy = (1, 1)\<rparr> \<and>
   update toy \<lparr>loss = (5, 2), accuracy = (1, 2)\<rparr> (toy_outputs 3 6 6)
     = Inr \<lparr>loss = (8, 3), accuracy = (2, 3)\<rparr> \<and>
   single_from_model_output toy \<lparr>loss = (8, 3), accuracy = (2, 3)\<rparr> (toy_outputs 4 1 6)
     = Inr \<lparr>loss = (4, 1), accuracy = (0, 1)\<rparr> \<and>
   and_then (update toy \<lparr>loss = (5, 2), accuracy = (1, 2)\<rparr> (toy_outputs 3 6 6))
      (\<lambda>m'. update toy m' (toy_outputs 4 1 6))
     = Inr \<lparr>loss = (12, 4), accuracy = (2, 4)\<rparr>"
proof -
  have s1: "single_from_model_output toy \<lparr>loss = (5, 2), accuracy = (1, 2)\<rparr> (toy_outputs 3 6 6)
     = Inr \<lparr>loss = (3, 1), accuracy = (1, 1)\<rparr>"
    by (simp add: toy_def toy_single_def toy_outputs_def)
  have m1: "merge toy \<lparr>loss = (5, 2), accuracy = (1, 2)\<rparr> \<lparr>loss = (3, 1), accuracy = (1, 1)\<rparr>
     = Inr \<lparr>loss = (8, 3), accuracy = (2, 3)\<rparr>"
    by (simp add: toy_def toy_merge_def)
  have s2: "single_from_model_output toy \<lparr>loss = (8, 3), accuracy = (2, 3)\<rparr> (toy_outputs 4 1 6)
     = Inr \<lparr>loss = (4, 1), accuracy = (0, 1)\<rparr>"
    by (simp add: toy_def toy_single_def toy_outputs_def)
  have m2: "merge toy \<lparr>loss = (8, 3), accuracy = (2, 3)\<rparr> \<lparr>loss = (4, 1), accuracy = (0, 1)\<rparr>
     = Inr \<lparr>loss = (12, 4), accuracy = (2, 4)\<rparr>"
    by (simp add: toy_def toy_merge_def)
  note t = update_merges_single_output
    [of toy "\<lparr>loss = (5, 2), accuracy = (1, 2)\<rparr>" "toy_outputs 3 6 6"
        "\<lparr>loss = (3, 1), accuracy = (1, 1)\<rparr>" _ "\<lparr>loss = (8, 3), accuracy = (2, 3)\<rparr>"
        "toy_outputs 4 1 6" "\<lparr>loss = (4, 1), accuracy = (0, 1)\<rparr>"]
  from t s1 m1 s2 m2 show ?thesis by (simp add: update_def)
qed

section \<open>The model \<^verbatim>\<open>Linear\<close>\<close>

lemma reshaped_flatten:
  "reshaped (n # rest) [int n, - 1] = (if n = 0 then None else Some [n, prod_list rest])"
  by (simp add: reshaped_def Let_def)

lemma shape0_Inr [simp]: "shape0 sh = Inr n \<longleftrightarrow> (\<exists>rest. sh = n # rest)"
  by (simp add: shape0_def split: list.splits)

lemma shape0_Inl [simp]: "shape0 sh = Inl e \<longleftrightarrow> sh = [] \<and> e = IndexError"
  by (auto simp: shape0_def split: list.splits)

lemma Linear_Inr:
  "Linear fw variables x = Inr y \<longleftrightarrow>
     (\<exists>x1 n rest x2. true_divide fw x (FloatLit 2550 (- 1)) = Inr x1 \<and>
        tshape fw x1 = n # rest \<and>
        reshape fw x1 [int n, - 1] = Inr x2 \<and>
        Dense fw 10 variables x2 = Inr y)"
  by (auto simp: Linear_def and_then_Inr)

lemma toy_shapes: "shapes_as_documented toy"
  by (auto simp: shapes_as_documented_def toy_def toy_reshape_def split: option.splits)

lemma toy_Linear:
  "Linear toy [''params'' \<mapsto> 2] ([32, 28, 28, 1], 5) = Inr ([32, 10], 10)"
  by (simp add: Linear_def toy_def shape0_def toy_reshape_def toy_Dense_def reshaped_def Let_def)

text \<open>
  C3: for every input batch \<open>x\<close>, an array of shape \<open>(batch, 28, 28, 1)\<close> as the script's
  datasets and its initialisation give it, \<^verbatim>\<open>Linear\<close> computes exactly one \<^verbatim>\<open>Dense\<close> layer
  with 10 output features, applied to \<^verbatim>\<open>x / 255.0\<close> flattened to shape \<open>(batch, 784)\<close>:
  whenever the model returns, its result is what that layer returns on that array, and
  whenever the division and the reshape return, the model is that layer on their result,
  with nothing applied after it. The shapes are those numpy and jax.numpy document.
\<close>

theorem Linear_is_one_dense_layer:
  assumes doc: "shapes_as_documented fw"
    and shp: "tshape fw x = [n, 28, 28, 1]"
  shows "(\<forall>y. Linear fw variables x = Inr y \<longrightarrow>
            (\<exists>x1 x2. true_divide fw x (FloatLit 2550 (- 1)) = Inr x1 \<and>
               reshape fw x1 [int n, - 1] = Inr x2 \<and>
               tshape fw x2 = [n, 784] \<and>
               Dense fw 10 variables x2 = Inr y)) \<and>
         (\<forall>x1 x2. true_divide fw x (FloatLit 2550 (- 1)) = Inr x1 \<longrightarrow>
            reshape fw x1 [int n, - 1] = Inr x2 \<longrightarrow>
            tshape fw x2 = [n, 784] \<and> Linear fw variables x = Dense fw 10 variables x2)"
proof (intro conjI allI impI)
  fix y
  assume ret: "Linear fw variables x = Inr y"
  then obtain x1 k rest' x2 where
    d: "true_divide fw x (FloatLit 2550 (- 1)) = Inr x1"
    and k: "tshape fw x1 = k # rest'"
    and r: "reshape fw x1 [int k, - 1] = Inr x2"
    and l: "Dense fw 10 variables x2 = Inr y"
    unfolding Linear_Inr by blast
  from doc d have s1: "tshape fw x1 = tshape fw x"
    unfolding shapes_as_documented_def by blast
  with k shp have kn: "k = n" by simp
  from doc r have "reshaped (tshape fw x1) [int k, - 1] = Some (tshape fw x2)"
    unfolding shapes_as_documented_def by blast
  with s1 shp kn have "tshape fw x2 = [n, 784]"
    by (simp add: reshaped_flatten split: if_splits)
  with d r l kn show "\<exists>x1 x2. true_divide fw x (FloatLit 2550 (- 1)) = Inr x1 \<and>
               reshape fw x1 [int n, - 1] = Inr x2 \<and>
               tshape fw x2 = [n, 784] \<and>
               Dense fw 10 variables x2 = Inr y"
    by blast
next
  fix x1 x2
  assume d: "true_divide fw x (FloatLit 2550 (- 1)) = Inr x1"
    and r: "reshape fw x1 [int n, - 1] = Inr x2"
  from doc d have s1: "tshape fw x1 = tshape fw x"
    unfolding shapes_as_documented_def by blast
  from doc r have "reshaped (tshape fw x1) [int n, - 1] = Some (tshape fw x2)"
    unfolding shapes_as_documented_def by blast
  with s1 shp show "tshape fw x2 = [n, 784]"
    by (simp add: reshaped_flatten split: if_splits)
next
  fix x1 x2
  assume d: "true_divide fw x (FloatLit 2550 (- 1)) = Inr x1"
    and r: "reshape fw x1 [int n, - 1] = Inr x2"
  from doc d have "tshape fw x1 = tshape fw x"
    unfolding shapes_as_documented_def by blast
  with shp have "tshape fw x1 = [n, 28, 28, 1]" by simp
  with d r show "Linear fw variables x = Dense fw 10 variables x2"
    by (simp add: Linear_def shape0_def)
qed

theorem Linear_is_one_dense_layer_witness:
  "shapes_as_documented toy \<and>
   tshape toy ([32, 28, 28, 1], 5) = [32, 28, 28, 1] \<and>
   Linear toy [''params'' \<mapsto> 2] ([32, 28, 28, 1], 5) = Inr ([32, 10], 10) \<and>
   true_divide toy ([32, 28, 28, 1], 5) (FloatLit 2550 (- 1)) = Inr ([32, 28, 28, 1], 5) \<and>
   reshape toy ([32, 28, 28, 1], 5) [32, - 1] = Inr ([32, 784], 5) \<and>
   tshape toy ([32, 784], 5) = [32, 784] \<and>
   Linear toy [''params'' \<mapsto> 2] ([32, 28, 28, 1], 5) = Dense toy 10 [''params'' \<mapsto> 2] ([32, 784], 5) \<and>
   Dense toy 10 [''params'' \<mapsto> 2] ([32, 784], 5) = Inr ([32, 10], 10)"
proof -
  have s: "tshape toy ([32, 28, 28, 1], 5) = [32, 28, 28, 1]" by (simp add: toy_def)
  have d: "true_divide toy ([32, 28, 28, 1], 5) (FloatLit 2550 (- 1)) = Inr ([32, 28, 28, 1], 5)"
    by (simp add: toy_def)
  have r: "reshape toy ([32, 28, 28, 1], 5) [32, - 1] = Inr ([32, 784], 5)"
    by (simp add: toy_def toy_reshape_def reshaped_def Let_def)
  have l: "Dense toy 10 [''params'' \<mapsto> 2] ([32, 784], 5) = Inr ([32, 10], 10)"
    by (simp add: toy_def toy_Dense_def)
  note t = Linear_is_one_dense_layer [OF toy_shapes s, of "[''params'' \<mapsto> 2]"]
  from r have r': "reshape toy ([32, 28, 28, 1], 5) [int 32, - 1] = Inr ([32, 784], 5)"
    by simp
  have c: "tshape toy ([32, 784], 5) = [32, 784] \<and>
      Linear toy [''params'' \<mapsto> 2] ([32, 28, 28, 1], 5) =
        Dense toy 10 [''params'' \<mapsto> 2] ([32, 784], 5)"
    by (rule t [THEN conjunct2, rule_format, OF d r'])
  from toy_shapes s toy_Linear d r l c show ?thesis by (intro conjI) (erule conjunct1 conjunct2 | assumption)+
qed

section \<open>The call of the loop\<close>

lemma str_int_0: "str_int 0 = ''0''"
  by code_simp

lemma steps_values: "total_steps = 100" "log_steps = 2" "eval_steps = 10"
  by (simp_all add: total_steps_def total_samples_def batch_size_def log_steps_def eval_steps_def)

lemma training_loop_value:
  "training_loop now =
     (Loop DsTrain
          [Entry (Every 1) (One TrainStep),
           Entry (Every 2) (Many [ComputeMetrics, ResetMetrics]),
           Entry (Every 10)
             (Many [InnerLoop ''valid''
                      (Loop DsValid [Entry (Every 1) (One EvalStep)] [ResetMetrics] None),
                    Checkpoint (''logdir/mnist_full/'' @ str_int now) ''accuracy_valid'' ''max'',
                    EarlyStopping ''accuracy_valid'' ''max'' 20]),
           Unpack (KerasBar 100)]
          []
          (Some 100))"
  by (simp add: training_loop_def valid_loop_def steps_values)

lemma training_loop_callbacks_at:
  "callbacks_at (training_loop now) k =
     [TrainStep] @
     (if k mod log_steps = 0 then [ComputeMetrics, ResetMetrics] else []) @
     (if k mod eval_steps = 0
      then [InnerLoop ''valid'' valid_loop,
            Checkpoint (''logdir/mnist_full/'' @ str_int now) ''accuracy_valid'' ''max'',
            EarlyStopping ''accuracy_valid'' ''max'' (eval_steps * 2)]
      else [])"
  by (simp add: training_loop_def steps_values)




lemma toy_script: "script toy 0 = Inr (toy_created, (), ())"
  by (simp add: toy_created_def script_def initial_state_def toy_def getitem_def)


text \<open>
  C1: the one \<^verbatim>\<open>ciclo.loop\<close> call of the script, on the state the script created, has the
  schedule \<^verbatim>\<open>every(1)\<close>: \<^verbatim>\<open>train_step\<close>; \<^verbatim>\<open>every(log_steps)\<close>: \<^verbatim>\<open>compute_metrics\<close> then
  \<^verbatim>\<open>reset_metrics\<close>, with \<open>log_steps = total_steps // 50 = 2\<close>; \<^verbatim>\<open>every(eval_steps)\<close>: the
  validation inner loop, then a checkpoint monitoring \<^verbatim>\<open>accuracy_valid\<close> with mode \<^verbatim>\<open>max\<close>,
  then early stopping monitoring \<^verbatim>\<open>accuracy_valid\<close> with mode \<^verbatim>\<open>max\<close> and patience
  \<open>eval_steps * 2 = 20\<close>, with \<open>eval_steps = total_steps // 10 = 10\<close>; the progress bar;
  and \<open>stop = total_steps = total_samples // batch_size = 100\<close>. In the schedule of the
  loop, \<^verbatim>\<open>train_step\<close> therefore runs at every step, \<^verbatim>\<open>compute_metrics\<close> followed by
  \<^verbatim>\<open>reset_metrics\<close> at the steps \<open>log_steps\<close> divides, the validation loop followed by the
  checkpoint and the early stopping at the steps \<open>eval_steps\<close> divides, the validation loop
  runs \<^verbatim>\<open>eval_step\<close> at each of its steps, and the loop runs the steps 1 to 100 and none
  after.
\<close>

theorem training_loop_schedule:
  "script fw now =
     and_then (initial_state fw) (\<lambda>state. ciclo_loop fw state
       (Loop DsTrain
          [Entry (Every 1) (One TrainStep),
           Entry (Every 2) (Many [ComputeMetrics, ResetMetrics]),
           Entry (Every 10)
             (Many [InnerLoop ''valid''
                      (Loop DsValid [Entry (Every 1) (One EvalStep)] [ResetMetrics] None),
                    Checkpoint (''logdir/mnist_full/'' @ str_int now) ''accuracy_valid'' ''max'',
                    EarlyStopping ''accuracy_valid'' ''max'' 20]),
           Unpack (KerasBar 100)]
          []
          (Some 100))) \<and>
   total_steps = total_samples div batch_size \<and> total_steps = 100 \<and>
   log_steps = total_steps div 50 \<and> log_steps = 2 \<and>
   eval_steps = total_steps div 10 \<and> eval_steps = 10 \<and>
   (\<forall>k. may_run (training_loop now) k \<longleftrightarrow> 1 \<le> k \<and> k \<le> total_steps) \<and>
   (\<forall>k. callbacks_at (training_loop now) k =
      [TrainStep] @
      (if k mod log_steps = 0 then [ComputeMetrics, ResetMetrics] else []) @
      (if k mod eval_steps = 0
       then [InnerLoop ''valid''
               (Loop DsValid [Entry (Every 1) (One EvalStep)] [ResetMetrics] None),
             Checkpoint (''logdir/mnist_full/'' @ str_int now) ''accuracy_valid'' ''max'',
             EarlyStopping ''accuracy_valid'' ''max'' (eval_steps * 2)]
       else [])) \<and>
   (\<forall>k. run_during TrainStep (training_loop now) k) \<and>
   (\<forall>k. run_during ComputeMetrics (training_loop now) k \<longleftrightarrow> k mod log_steps = 0) \<and>
   (\<forall>k. run_during EvalStep (training_loop now) k \<longleftrightarrow> k mod eval_steps = 0) \<and>
   (\<forall>k. callbacks_at valid_loop k = [EvalStep]) \<and>
   unpacked (training_loop now) = [KerasBar total_steps]"
proof (intro conjI allI)
  show "script fw now =
     and_then (initial_state fw) (\<lambda>state. ciclo_loop fw state
       (Loop DsTrain
          [Entry (Every 1) (One TrainStep),
           Entry (Every 2) (Many [ComputeMetrics, ResetMetrics]),
           Entry (Every 10)
             (Many [InnerLoop ''valid''
                      (Loop DsValid [Entry (Every 1) (One EvalStep)] [ResetMetrics] None),
                    Checkpoint (''logdir/mnist_full/'' @ str_int now) ''accuracy_valid'' ''max'',
                    EarlyStopping ''accuracy_valid'' ''max'' 20]),
           Unpack (KerasBar 100)]
          []
          (Some 100)))"
    by (simp only: script_def training_loop_value)
next
  fix k
  show "callbacks_at (training_loop now) k =
      [TrainStep] @
      (if k mod log_steps = 0 then [ComputeMetrics, ResetMetrics] else []) @
      (if k mod eval_steps = 0
       then [InnerLoop ''valid''
               (Loop DsValid [Entry (Every 1) (One EvalStep)] [ResetMetrics] None),
             Checkpoint (''logdir/mnist_full/'' @ str_int now) ''accuracy_valid'' ''max'',
             EarlyStopping ''accuracy_valid'' ''max'' (eval_steps * 2)]
       else [])"
    by (simp only: training_loop_callbacks_at valid_loop_def)
next
  fix k
  show "run_during TrainStep (training_loop now) k"
    by (simp add: run_during_def training_loop_callbacks_at)
next
  fix k
  show "run_during ComputeMetrics (training_loop now) k \<longleftrightarrow> k mod log_steps = 0"
    by (simp add: run_during_def training_loop_callbacks_at valid_loop_def)
next
  fix k
  show "run_during EvalStep (training_loop now) k \<longleftrightarrow> k mod eval_steps = 0"
    by (simp add: run_during_def training_loop_callbacks_at valid_loop_def)
next
  fix k
  show "may_run (training_loop now) k \<longleftrightarrow> 1 \<le> k \<and> k \<le> total_steps"
    by (simp add: training_loop_def)
next
  fix k
  show "callbacks_at valid_loop k = [EvalStep]"
    by (simp add: valid_loop_def)
next
  show "unpacked (training_loop now) = [KerasBar total_steps]"
    by (simp add: training_loop_def)
next
  show "total_steps = total_samples div batch_size" by (fact total_steps_def)
next
  show "log_steps = total_steps div 50" by (fact log_steps_def)
next
  show "eval_steps = total_steps div 10" by (fact eval_steps_def)
qed (fact steps_values)+

theorem training_loop_schedule_witness:
  "script toy 0 = Inr (toy_created, (), ()) \<and>
   callbacks_at (training_loop 0) 7 = [TrainStep] \<and>
   callbacks_at (training_loop 0) 8 = [TrainStep, ComputeMetrics, ResetMetrics] \<and>
   callbacks_at (training_loop 0) 20 =
     [TrainStep, ComputeMetrics, ResetMetrics,
      InnerLoop ''valid'' (Loop DsValid [Entry (Every 1) (One EvalStep)] [ResetMetrics] None),
      Checkpoint ''logdir/mnist_full/0'' ''accuracy_valid'' ''max'',
      EarlyStopping ''accuracy_valid'' ''max'' 20] \<and>
   may_run (training_loop 0) 1 \<and> may_run (training_loop 0) 100 \<and>
   \<not> may_run (training_loop 0) 101 \<and> \<not> may_run (training_loop 0) 0"
proof -
  note t = training_loop_schedule [of toy 0]
  have c: "\<forall>k. callbacks_at (training_loop 0) k =
      [TrainStep] @
      (if k mod log_steps = 0 then [ComputeMetrics, ResetMetrics] else []) @
      (if k mod eval_steps = 0
       then [InnerLoop ''valid''
               (Loop DsValid [Entry (Every 1) (One EvalStep)] [ResetMetrics] None),
             Checkpoint (''logdir/mnist_full/'' @ str_int 0) ''accuracy_valid'' ''max'',
             EarlyStopping ''accuracy_valid'' ''max'' (eval_steps * 2)]
       else [])"
    using t by (elim conjE) assumption
  have m: "\<forall>k. may_run (training_loop 0) k \<longleftrightarrow> 1 \<le> k \<and> k \<le> total_steps"
    using t by (elim conjE) assumption
  show ?thesis
    by (simp add: toy_script c m steps_values str_int_0)
qed



end
